theory Spec2Isabelle
  imports Complex_Main "HOL-Library.Word"
begin

chapter \<open>The model\<close>

section \<open>Elapsed-time tracker: \<open>Timer\<close>\<close>

text \<open>
  The class \<open>Timer\<close> keeps one field, \<open>previousMillis\<close>, an \<open>unsigned long\<close>
  (32 bits on the ESP32). Every method reads the Arduino counter \<open>millis()\<close>, which is an
  \<open>unsigned long\<close> too and wraps from \<open>2^32 - 1\<close> to \<open>0\<close>. The counter is outside the
  class, so each method takes the value that \<open>millis()\<close> returns as its first argument
  and returns its result together with the timer as the method leaves it.
\<close>

type_synonym ulong = "32 word"

record Timer =
  previousMillis :: ulong

definition Timer_new :: Timer where
  "Timer_new = \<lparr>previousMillis = 0\<rparr>"

definition getMillis :: "ulong \<Rightarrow> Timer \<Rightarrow> ulong \<times> Timer" where
  "getMillis now t = (let t' = t\<lparr>previousMillis := now\<rparr> in (previousMillis t', t'))"

definition millisSinceLast :: "ulong \<Rightarrow> Timer \<Rightarrow> ulong \<times> Timer" where
  "millisSinceLast now t =
     (let currentMillis = now;
          diffMillis = currentMillis - previousMillis t;
          t' = t\<lparr>previousMillis := currentMillis\<rparr>
      in (diffMillis, t'))"

definition hasAmountTimePassed :: "ulong \<Rightarrow> ulong \<Rightarrow> Timer \<Rightarrow> bool \<times> Timer" where
  "hasAmountTimePassed now time t = (now - previousMillis t \<ge> time, t)"

text \<open>
  The hardware counter at the true time of \<open>T\<close> milliseconds since boot: the time modulo
  the range of an \<open>unsigned long\<close>.
\<close>

definition millis_at :: "nat \<Rightarrow> ulong" where
  "millis_at T = of_nat T"

section \<open>State controller\<close>

text \<open>
  Modelled from the spec: the enumeration \<open>Definitions::MOWER_STATES\<close> is declared in
  \<open>definitions.h\<close>, which is not among the sources. The spec lists its members; the
  constructor names the first nine and \<open>api.cpp\<close> names \<open>MANUAL\<close>.
\<close>

datatype MOWER_STATES =
  DOCKED | LAUNCHING | MOWING | DOCKING | CHARGING | STUCK | FLIPPED | PAUSED | DEMO
  | MANUAL | TEST

text \<open>
  A state unit is an object of one of the nine classes the constructor instantiates,
  built with its own kind as first argument (the other two arguments are references to
  the controller and to the shared resources). A pointer to a unit is \<open>Some\<close> of it,
  the null pointer is \<open>None\<close>.
\<close>

datatype state_class =
  Docked | Launching | Mowing | Docking | Charging | Stuck | Flipped | Paused | Demo

record AbstractState =
  unit_class :: state_class
  unit_kind :: MOWER_STATES

definition new_unit :: "state_class \<Rightarrow> MOWER_STATES \<Rightarrow> AbstractState option" where
  "new_unit cls k = Some \<lparr>unit_class = cls, unit_kind = k\<rparr>"

text \<open>The virtual calls a controller operation makes on state units, in order.\<close>

datatype hook_call = OnExit AbstractState | OnEnter AbstractState

record StateController =
  stateLookup :: "MOWER_STATES \<rightharpoonup> AbstractState option"
  currentStateInstance :: "AbstractState option"

text \<open>
  \<open>stateLookup[k]\<close> on a standard map: the stored pointer when the key is present;
  otherwise the key is inserted with a null pointer, which is returned.
\<close>

definition subscript ::
  "(MOWER_STATES \<rightharpoonup> AbstractState option) \<Rightarrow> MOWER_STATES
     \<Rightarrow> AbstractState option \<times> (MOWER_STATES \<rightharpoonup> AbstractState option)" where
  "subscript m k = (case m k of Some p \<Rightarrow> (p, m) | None \<Rightarrow> (None, m(k \<mapsto> None)))"

text \<open>
  \<open>setState\<close> is one assignment; the publication of the new state is commented out.
  It returns the hook calls it made (none) and the controller.
\<close>

definition setState :: "MOWER_STATES \<Rightarrow> StateController \<Rightarrow> hook_call list \<times> StateController" where
  "setState newState c =
     (let (p, m) = subscript (stateLookup c) newState
      in ([], c\<lparr>stateLookup := m, currentStateInstance := p\<rparr>))"

text \<open>
  The constructor fills the table with nine assignments and calls \<open>setState\<close>. The
  pointer \<open>currentStateInstance\<close> has no value before that call; it is written as null.
\<close>

definition registered_units :: "MOWER_STATES \<rightharpoonup> AbstractState option" where
  "registered_units =
     [DOCKED \<mapsto> new_unit Docked DOCKED,
      LAUNCHING \<mapsto> new_unit Launching LAUNCHING,
      MOWING \<mapsto> new_unit Mowing MOWING,
      DOCKING \<mapsto> new_unit Docking DOCKING,
      CHARGING \<mapsto> new_unit Charging CHARGING,
      STUCK \<mapsto> new_unit Stuck STUCK,
      FLIPPED \<mapsto> new_unit Flipped FLIPPED,
      PAUSED \<mapsto> new_unit Paused PAUSED,
      DEMO \<mapsto> new_unit Demo DEMO]"

definition StateController_new :: "MOWER_STATES \<Rightarrow> hook_call list \<times> StateController" where
  "StateController_new initialState =
     setState initialState \<lparr>stateLookup = registered_units, currentStateInstance = None\<rparr>"

definition getStateInstance :: "StateController \<Rightarrow> AbstractState option" where
  "getStateInstance c = currentStateInstance c"

text \<open>A sequence of transitions: the hook calls of all of them, and the controller after the last.\<close>

fun setStates :: "MOWER_STATES list \<Rightarrow> StateController \<Rightarrow> hook_call list \<times> StateController" where
  "setStates [] c = ([], c)"
| "setStates (k # ks) c =
     (let (calls, c') = setState k c; (calls', c'') = setStates ks c' in (calls @ calls', c''))"

text \<open>
  The entries the constructor stored are still in the table of a controller, each with
  the pointer stored then.
\<close>

definition table_ok :: "StateController \<Rightarrow> bool" where
  "table_ok c = (\<forall>k p. registered_units k = Some p \<longrightarrow> stateLookup c k = Some p)"

section \<open>State changes requested through the API\<close>

text \<open>
  Modelled from the spec: \<open>StateController::setUserChangableState\<close> is called by
  \<open>api.cpp\<close>, but its body is not among the sources, and neither are the state classes
  with their acceptance policy. The spec: it parses the supplied name into a kind (an
  unknown name returns false without mutating state), then delegates to the current
  state's \<open>acceptsUserCommand\<close> check before calling \<open>setState\<close>; it returns false and
  leaves the state unchanged on rejection. The table of names and the policy of the
  units are parameters. With no active unit there is no policy that accepts, which is
  taken as a rejection.
\<close>

definition setUserChangableState ::
  "(string \<Rightarrow> MOWER_STATES option) \<Rightarrow> (AbstractState \<Rightarrow> MOWER_STATES \<Rightarrow> bool)
     \<Rightarrow> string \<Rightarrow> StateController \<Rightarrow> bool \<times> StateController" where
  "setUserChangableState parseName acceptsUserCommand name c =
     (case parseName name of
        None \<Rightarrow> (False, c)
      | Some k \<Rightarrow>
          (case currentStateInstance c of
             None \<Rightarrow> (False, c)
           | Some u \<Rightarrow>
               if acceptsUserCommand u k then (True, snd (setState k c)) else (False, c)))"

text \<open>
  A request as the handlers see it: the verdict of \<open>resources.wifi.isAuthenticated\<close>
  on it. The body arrives as bytes and is parsed into a JSON object; \<open>None\<close> is a parse
  that did not succeed, and an object maps its keys to their values as strings.
\<close>

record AsyncWebServerRequest =
  isAuthenticated :: bool

type_synonym JsonObject = "string \<rightharpoonup> string"

datatype response = RequestAuthentication | Send nat | SendText nat string

text \<open>The body handler of \<open>PUT /api/v1/state\<close>.\<close>

definition api_put_state ::
  "(string \<Rightarrow> MOWER_STATES option) \<Rightarrow> (AbstractState \<Rightarrow> MOWER_STATES \<Rightarrow> bool)
     \<Rightarrow> AsyncWebServerRequest \<Rightarrow> JsonObject option \<Rightarrow> StateController
     \<Rightarrow> response \<times> StateController" where
  "api_put_state parseName acceptsUserCommand request parsed c =
     (if \<not> isAuthenticated request then (RequestAuthentication, c)
      else
        (case parsed of
           Some obj \<Rightarrow>
             (case obj ''state'' of
                Some state \<Rightarrow>
                  (let (ok, c') = setUserChangableState parseName acceptsUserCommand state c
                   in if ok then (Send 200, c')
                      else (SendText 422 (''unknown state: '' @ state), c'))
              | None \<Rightarrow> (SendText 400 ''Bad Request'', c))
         | None \<Rightarrow> (SendText 400 ''Bad Request'', c)))"

text \<open>
  The request handler of \<open>PUT /api/v1/manual/forward\<close>: one call of \<open>setState\<close>, with
  no look at the request. (The body handler registered with it checks the
  authentication, drives the wheels and replies; it does not touch the controller.)
\<close>

definition api_put_manual_forward :: "AsyncWebServerRequest \<Rightarrow> StateController \<Rightarrow> StateController" where
  "api_put_manual_forward request c = snd (setState MANUAL c)"

section \<open>Orientation estimator: \<open>IO_Accelerometer\<close>\<close>

text \<open>
  The class and the struct \<open>orientation\<close> are declared in \<open>io_accelerometer.h\<close>, which
  is not among the sources; the members below are the ones the methods use. The three
  fields of an orientation hold what \<open>roundf\<close> returns, whole degrees, and are integers
  here. The driver object \<open>imu\<close> holds the last raw samples as 16-bit signed integers;
  only the five that the estimator reads are kept.
\<close>

type_synonym int16 = "16 word"

record orientation =
  roll :: int
  pitch :: int
  heading :: int

record LSM9DS1 =
  ax :: int16
  ay :: int16
  az :: int16
  mx :: int16
  my :: int16

datatype log_line = Log_error string | Log_notice string

record IO_Accelerometer =
  imu :: LSM9DS1
  available :: bool
  currentOrientation :: orientation
  ax_sample :: "int16 list"
  ay_sample :: "int16 list"
  az_sample :: "int16 list"
  mx_sample :: "int16 list"
  my_sample :: "int16 list"
  medianIndex :: nat
  sensorReadingTicker :: bool
  log_lines :: "log_line list"

text \<open>
  What the hardware delivers at one call of \<open>getReadings\<close>: the accelerometer sample
  when \<open>accelAvailable()\<close> holds, the magnetometer sample (x and y) when
  \<open>magAvailable()\<close> holds. Without a new sample the driver keeps the old values. The
  gyroscope is read as well, but nothing uses its values.
\<close>

record sensor_sample =
  accel :: "(int16 \<times> int16 \<times> int16) option"
  mag :: "(int16 \<times> int16) option"

definition readSensors :: "sensor_sample \<Rightarrow> LSM9DS1 \<Rightarrow> LSM9DS1" where
  "readSensors inp i =
     (let i1 = (case accel inp of Some (x, y, z) \<Rightarrow> i\<lparr>ax := x, ay := y, az := z\<rparr> | None \<Rightarrow> i)
      in (case mag inp of Some (u, v) \<Rightarrow> i1\<lparr>mx := u, my := v\<rparr> | None \<Rightarrow> i1))"

text \<open>
  Modelled from the spec: \<open>Utils::calculateMedian\<close> is declared in \<open>utils.h\<close>, which is
  not among the sources. The spec calls the filter a true per-axis median over the
  window: the middle element of the window sorted by value.
\<close>

definition calculateMedian :: "int16 list \<Rightarrow> int16" where
  "calculateMedian xs = sort_key sint xs ! (length xs div 2)"

text \<open>
  The floating-point arithmetic of \<open>getReadings\<close> is read over the real numbers:
  \<open>atan2\<close> is the angle of the point \<open>(x, y)\<close> in \<open>(-\<pi>, \<pi>]\<close>, with the value 0 at the
  origin as in the C library, and \<open>roundf\<close> rounds to the nearest integer, halves away
  from zero. Rounding errors of \<open>float\<close> and \<open>double\<close> are not modelled.
\<close>

definition atan2 :: "real \<Rightarrow> real \<Rightarrow> real" where
  "atan2 y x =
     (if 0 < x then arctan (y / x)
      else if x < 0 then (if 0 \<le> y then arctan (y / x) + pi else arctan (y / x) - pi)
      else if 0 < y then pi / 2
      else if y < 0 then - (pi / 2)
      else 0)"

definition roundf :: "real \<Rightarrow> int" where
  "roundf x = (if 0 \<le> x then \<lfloor>x + 1 / 2\<rfloor> else - \<lfloor>- x + 1 / 2\<rfloor>)"

text \<open>
  \<open>newAy * newAy + newAz * newAz\<close>: both operands are promoted to \<open>int\<close>, 32 bits on
  the target, and the sum is formed there. It fits unless both medians are \<open>-32768\<close>,
  where the C++ expression overflows; the model wraps.
\<close>

definition squares_sum :: "int16 \<Rightarrow> int16 \<Rightarrow> int" where
  "squares_sum y z = sint ((scast y * scast y + scast z * scast z) :: 32 word)"

text \<open>
  The second half of \<open>getReadings\<close>: from the five medians to the orientation that is
  published. \<open>DECLINATION\<close> is a macro of a header that is not among the sources and
  is a parameter.
\<close>

definition orientationFromMedians ::
  "real \<Rightarrow> int16 \<Rightarrow> int16 \<Rightarrow> int16 \<Rightarrow> int16 \<Rightarrow> int16 \<Rightarrow> orientation" where
  "orientationFromMedians DECLINATION newAx newAy newAz newMx newMy =
     (let roll0 = atan2 (of_int (sint newAy)) (of_int (sint newAz));
          pitch0 = atan2 (of_int (- sint newAx)) (sqrt (of_int (squares_sum newAy newAz)));
          yaw0 = (if - sint newMy = 0 then (if - sint newMx < 0 then pi else 0)
                  else atan2 (of_int (- sint newMx)) (of_int (- sint newMy)));
          yaw1 = yaw0 * (180 / pi);
          pitch1 = pitch0 * (180 / pi);
          roll1 = roll0 * (180 / pi);
          yaw2 = yaw1 - DECLINATION;
          yaw3 = (if yaw2 < 0 then yaw2 + 360 else yaw2)
      in \<lparr>roll = roundf roll1, pitch = roundf pitch1, heading = roundf yaw3\<rparr>)"

text \<open>
  \<open>getReadings\<close>. \<open>GYRO_MEDIAN_SAMPLES\<close>, the length of the five sample windows, is a
  macro of a header that is not among the sources and is a parameter.
\<close>

definition getReadings :: "real \<Rightarrow> nat \<Rightarrow> sensor_sample \<Rightarrow> IO_Accelerometer \<Rightarrow> IO_Accelerometer" where
  "getReadings DECLINATION GYRO_MEDIAN_SAMPLES inp s =
     (if available s then
        (let i = readSensors inp (imu s);
             s1 = s\<lparr>imu := i,
                    ax_sample := (ax_sample s)[medianIndex s := ax i],
                    ay_sample := (ay_sample s)[medianIndex s := ay i],
                    az_sample := (az_sample s)[medianIndex s := az i],
                    mx_sample := (mx_sample s)[medianIndex s := mx i],
                    my_sample := (my_sample s)[medianIndex s := my i],
                    medianIndex := (medianIndex s + 1) mod GYRO_MEDIAN_SAMPLES\<rparr>;
             newAx = calculateMedian (ax_sample s1);
             newAy = calculateMedian (ay_sample s1);
             newAz = calculateMedian (az_sample s1);
             newMx = calculateMedian (mx_sample s1);
             newMy = calculateMedian (my_sample s1)
         in s1\<lparr>currentOrientation :=
                  orientationFromMedians DECLINATION newAx newAy newAz newMx newMy\<rparr>)
      else s)"

text \<open>
  \<open>start\<close>. Its inputs are the result of \<open>imu.begin()\<close> and what the hardware delivers
  at each of the priming reads. The calibration works inside the driver and is not
  modelled. Attaching the ticker sets \<open>sensorReadingTicker\<close>.
\<close>

definition start ::
  "real \<Rightarrow> nat \<Rightarrow> bool \<Rightarrow> (nat \<Rightarrow> sensor_sample) \<Rightarrow> IO_Accelerometer \<Rightarrow> IO_Accelerometer" where
  "start DECLINATION GYRO_MEDIAN_SAMPLES begin_ok inputs s =
     (if \<not> begin_ok then
        s\<lparr>log_lines := log_lines s
             @ [Log_error ''Failed to initialize gyro/accelerometer/compass, check connections!'']\<rparr>
      else
        (let s1 = s\<lparr>log_lines := log_lines s
                       @ [Log_notice (''Gyro/accelerometer/compass init success.'' @ [CHR 0x0A])],
                     available := True\<rparr>;
             s2 = fold (\<lambda>i. getReadings DECLINATION GYRO_MEDIAN_SAMPLES (inputs i))
                    [0..<GYRO_MEDIAN_SAMPLES] s1
         in s2\<lparr>sensorReadingTicker := True\<rparr>))"

definition isAvailable :: "IO_Accelerometer \<Rightarrow> bool" where
  "isAvailable s = available s"

definition getOrientation :: "IO_Accelerometer \<Rightarrow> orientation" where
  "getOrientation s = currentOrientation s"

text \<open>\<open>TILT_ANGLE_MAX\<close> is a constant of \<open>definitions.h\<close> and is a parameter.\<close>

definition isFlipped :: "int \<Rightarrow> IO_Accelerometer \<Rightarrow> bool" where
  "isFlipped TILT_ANGLE_MAX s =
     (if available s = False then False
      else (\<bar>pitch (currentOrientation s)\<bar> > TILT_ANGLE_MAX
            \<or> \<bar>roll (currentOrientation s)\<bar> > TILT_ANGLE_MAX))"

text \<open>The estimator after a run of sampling ticks, one \<open>getReadings\<close> per tick.\<close>

definition sampling_ticks ::
  "real \<Rightarrow> nat \<Rightarrow> sensor_sample list \<Rightarrow> IO_Accelerometer \<Rightarrow> IO_Accelerometer" where
  "sampling_ticks DECLINATION GYRO_MEDIAN_SAMPLES inps s =
     fold (getReadings DECLINATION GYRO_MEDIAN_SAMPLES) inps s"

text \<open>
  Modelled from the spec: the member initialisers of the class are in the header that is
  not among the sources. This is the estimator before \<open>start\<close>, the spec's
  \<open>Uninitialized\<close>: not available, no ticker, an empty log, the orientation and all
  samples zero, windows of \<open>GYRO_MEDIAN_SAMPLES\<close> entries, the next write at index 0. It
  serves as a concrete input.
\<close>

definition IO_Accelerometer_new :: "nat \<Rightarrow> IO_Accelerometer" where
  "IO_Accelerometer_new GYRO_MEDIAN_SAMPLES =
     \<lparr>imu = \<lparr>ax = 0, ay = 0, az = 0, mx = 0, my = 0\<rparr>,
      available = False,
      currentOrientation = \<lparr>roll = 0, pitch = 0, heading = 0\<rparr>,
      ax_sample = replicate GYRO_MEDIAN_SAMPLES 0,
      ay_sample = replicate GYRO_MEDIAN_SAMPLES 0,
      az_sample = replicate GYRO_MEDIAN_SAMPLES 0,
      mx_sample = replicate GYRO_MEDIAN_SAMPLES 0,
      my_sample = replicate GYRO_MEDIAN_SAMPLES 0,
      medianIndex = 0,
      sensorReadingTicker = False,
      log_lines = []\<rparr>"

section \<open>Status collection: \<open>Api::collectAndPushNewStatus\<close>\<close>

text \<open>
  The struct \<open>statusResponse\<close> and the member \<open>lastMQTT_push\<close> are declared in
  \<open>api.h\<close>, which is not among the sources. The fields are the ones \<open>statusToJson\<close>
  lists. Only \<open>uptime\<close> enters arithmetic: it is assigned through a cast to
  \<open>uint32_t\<close> and is a 32-bit unsigned word, and so is \<open>lastMQTT_push\<close>, which is
  assigned from it and compared with it. The other fields are only compared and copied;
  the voltages are reals, the rest integers, and the three orientation fields carry the
  prefix \<open>status_\<close>.
\<close>

record statusResponse =
  state :: string
  batteryVoltage :: real
  batteryLevel :: real
  isCharging :: bool
  lastFullyChargeTime :: int
  lastChargeDuration :: int
  cutterLoad :: int
  cutterRotating :: bool
  uptime :: "32 word"
  wifiSignal :: int
  leftWheelSpd :: int
  rightWheelSpd :: int
  status_pitch :: int
  status_roll :: int
  status_heading :: int

text \<open>
  What the subsystems answer during one call: the name of the active state, the battery,
  the cutter, the wheels (\<open>stat\<close>), the signal strength, the orientation (\<open>orient\<close>)
  and \<open>esp_timer_get_time()\<close>, the microseconds since boot.
\<close>

record subsystems =
  getStateName :: string
  getBatteryVoltage :: real
  getBatteryStatus :: real
  battery_isCharging :: bool
  getLastFullyChargeTime :: int
  getLastChargeDuration :: int
  getLoad :: int
  isCutting :: bool
  leftWheelSpeed :: int
  rightWheelSpeed :: int
  RSSI :: int
  orient :: orientation
  esp_timer_get_time :: nat

record Api =
  currentStatus :: statusResponse
  lastMQTT_push :: "32 word"

text \<open>What one call sends: the status over the websocket, and the status to MQTT.\<close>

datatype push = SendDataWebSocket string statusResponse | Publish_mqtt statusResponse string

definition collectAndPushNewStatus :: "subsystems \<Rightarrow> Api \<Rightarrow> push list \<times> Api" where
  "collectAndPushNewStatus r a =
     (let c0 = currentStatus a;
          (c1, ch1) = (if state c0 \<noteq> getStateName r
                       then (c0\<lparr>state := getStateName r\<rparr>, True) else (c0, False));
          (c2, ch2) = (if batteryVoltage c1 \<noteq> getBatteryVoltage r
                       then (c1\<lparr>batteryVoltage := getBatteryVoltage r\<rparr>, True) else (c1, ch1));
          (c3, ch3) = (if batteryLevel c2 \<noteq> getBatteryStatus r
                       then (c2\<lparr>batteryLevel := getBatteryStatus r\<rparr>, True) else (c2, ch2));
          (c4, ch4) = (if isCharging c3 \<noteq> battery_isCharging r
                       then (c3\<lparr>isCharging := battery_isCharging r\<rparr>, True) else (c3, ch3));
          (c5, ch5) = (if lastFullyChargeTime c4 \<noteq> getLastFullyChargeTime r
                       then (c4\<lparr>lastFullyChargeTime := getLastFullyChargeTime r\<rparr>, True)
                       else (c4, ch4));
          (c6, ch6) = (if lastChargeDuration c5 \<noteq> getLastChargeDuration r
                       then (c5\<lparr>lastChargeDuration := getLastChargeDuration r\<rparr>, True)
                       else (c5, ch5));
          (c7, ch7) = (if cutterLoad c6 \<noteq> getLoad r
                       then (c6\<lparr>cutterLoad := getLoad r\<rparr>, True) else (c6, ch6));
          (c8, ch8) = (if cutterRotating c7 \<noteq> isCutting r
                       then (c7\<lparr>cutterRotating := isCutting r\<rparr>, True) else (c7, ch7));
          (c9, ch9) = (if leftWheelSpd c8 \<noteq> leftWheelSpeed r
                       then (c8\<lparr>leftWheelSpd := leftWheelSpeed r\<rparr>, True) else (c8, ch8));
          (c10, ch10) = (if rightWheelSpd c9 \<noteq> rightWheelSpeed r
                         then (c9\<lparr>rightWheelSpd := rightWheelSpeed r\<rparr>, True) else (c9, ch9));
          (c11, ch11) = (if wifiSignal c10 \<noteq> RSSI r
                         then (c10\<lparr>wifiSignal := RSSI r\<rparr>, True) else (c10, ch10));
          (c12, ch12) = (if status_pitch c11 \<noteq> pitch (orient r)
                         then (c11\<lparr>status_pitch := pitch (orient r)\<rparr>, True) else (c11, ch11));
          (c13, ch13) = (if status_roll c12 \<noteq> roll (orient r)
                         then (c12\<lparr>status_roll := roll (orient r)\<rparr>, True) else (c12, ch12));
          (c14, statusChanged) = (if status_heading c13 \<noteq> heading (orient r)
                         then (c13\<lparr>status_heading := heading (orient r)\<rparr>, True) else (c13, ch13));
          c15 = c14\<lparr>uptime := of_nat (esp_timer_get_time r div 1000000)\<rparr>
      in if statusChanged then
           (if lastMQTT_push a < uptime c15 - 10
            then ([SendDataWebSocket ''status'' c15, Publish_mqtt c15 ''/status''],
                  a\<lparr>currentStatus := c15, lastMQTT_push := uptime c15\<rparr>)
            else ([SendDataWebSocket ''status'' c15], a\<lparr>currentStatus := c15\<rparr>))
         else ([], a\<lparr>currentStatus := c15\<rparr>))"

text \<open>
  A concrete run: the status right after boot, with nothing published to MQTT yet, and
  the answers of the subsystems one and two seconds after boot, which differ from the
  status before them in the signal strength only.
\<close>

definition status_at_boot :: statusResponse where
  "status_at_boot =
     \<lparr>state = ''DOCKED'', batteryVoltage = 12, batteryLevel = 80, isCharging = False,
      lastFullyChargeTime = 0, lastChargeDuration = 0, cutterLoad = 0, cutterRotating = False,
      uptime = 0, wifiSignal = - 60, leftWheelSpd = 0, rightWheelSpd = 0,
      status_pitch = 0, status_roll = 0, status_heading = 0\<rparr>"

definition answers_at :: "nat \<Rightarrow> int \<Rightarrow> subsystems" where
  "answers_at seconds signal =
     \<lparr>getStateName = ''DOCKED'', getBatteryVoltage = 12, getBatteryStatus = 80,
      battery_isCharging = False, getLastFullyChargeTime = 0, getLastChargeDuration = 0,
      getLoad = 0, isCutting = False, leftWheelSpeed = 0, rightWheelSpeed = 0,
      RSSI = signal, orient = \<lparr>roll = 0, pitch = 0, heading = 0\<rparr>,
      esp_timer_get_time = seconds * 1000000\<rparr>"

chapter \<open>Properties\<close>

section \<open>Properties of the timer\<close>

lemma unat_millis_diff:
  "unat (millis_at (T + d) - millis_at T) = d mod 2 ^ 32"
proof -
  have "millis_at (T + d) - millis_at T = (of_nat d :: ulong)"
    by (simp add: millis_at_def)
  then show ?thesis
    by (simp add: unat_of_nat)
qed

text \<open>
  C5. A timer marked at true time \<open>T\<close> and read \<open>d\<close> milliseconds later, however often
  the counter wrapped in between: \<open>millisSinceLast\<close> returns \<open>d\<close> modulo \<open>2^32\<close> (a
  non-negative number below \<open>2^32\<close>) and marks the time of the read, and
  \<open>hasAmountTimePassed\<close> compares that same duration with its argument.
\<close>

theorem timer_wraparound:
  "unat (fst (millisSinceLast (millis_at (T + d)) \<lparr>previousMillis = millis_at T\<rparr>)) = d mod 2 ^ 32
   \<and> snd (millisSinceLast (millis_at (T + d)) \<lparr>previousMillis = millis_at T\<rparr>)
       = \<lparr>previousMillis = millis_at (T + d)\<rparr>
   \<and> fst (hasAmountTimePassed (millis_at (T + d)) time \<lparr>previousMillis = millis_at T\<rparr>)
       = (unat time \<le> d mod 2 ^ 32)"
  by (simp add: millisSinceLast_def hasAmountTimePassed_def Let_def unat_millis_diff word_le_nat_alt)

text \<open>
  C9 as stated fails for \<open>getMillis\<close>: with the mark at 3 and the counter at 5 it does
  not return the elapsed 2 milliseconds with the mark kept; it returns 5 and moves the
  mark to 5.
\<close>

theorem getMillis_moves_mark:
  "\<not> (fst (getMillis 5 \<lparr>previousMillis = 3\<rparr>) = 5 - 3
      \<and> snd (getMillis 5 \<lparr>previousMillis = 3\<rparr>) = \<lparr>previousMillis = 3\<rparr>)"
  by (simp add: getMillis_def)

text \<open>
  C9, amended. \<open>hasAmountTimePassed\<close> is the non-consuming read: it answers whether the
  wrapped time since the mark has reached the threshold and leaves the timer as it was,
  so a later \<open>millisSinceLast\<close> still measures from the old mark. \<open>getMillis\<close> returns
  the counter itself and moves the mark to it, so a later \<open>millisSinceLast\<close> measures
  from the call of \<open>getMillis\<close>.
\<close>

theorem timer_reads_and_mark:
  "hasAmountTimePassed now time t = (unat time \<le> unat (now - previousMillis t), t)
   \<and> fst (millisSinceLast later (snd (hasAmountTimePassed now time t))) = later - previousMillis t
   \<and> getMillis now t = (now, t\<lparr>previousMillis := now\<rparr>)
   \<and> fst (millisSinceLast later (snd (getMillis now t))) = later - now"
  by (simp add: hasAmountTimePassed_def millisSinceLast_def getMillis_def Let_def word_le_nat_alt)

section \<open>Properties of the state controller\<close>

lemma table_ok_initial: "table_ok \<lparr>stateLookup = registered_units, currentStateInstance = p\<rparr>"
  by (simp add: table_ok_def)

lemma setState_calls: "fst (setState k c) = []"
  by (simp add: setState_def split: prod.split)

lemma setState_current:
  assumes "table_ok c" and "registered_units k = Some p"
  shows "currentStateInstance (snd (setState k c)) = p"
proof -
  from assms have "stateLookup c k = Some p"
    by (simp add: table_ok_def)
  then show ?thesis
    by (simp add: setState_def subscript_def)
qed

lemma setState_table_ok:
  assumes "table_ok c"
  shows "table_ok (snd (setState k c))"
proof -
  have "stateLookup (snd (setState k c)) k' = Some p" if "registered_units k' = Some p" for k' p
  proof -
    from assms that have k': "stateLookup c k' = Some p"
      by (simp add: table_ok_def)
    show ?thesis
    proof (cases "stateLookup c k")
      case None
      with k' have "k' \<noteq> k" by auto
      with None k' show ?thesis
        by (simp add: setState_def subscript_def)
    next
      case (Some q)
      with k' show ?thesis
        by (simp add: setState_def subscript_def)
    qed
  qed
  then show ?thesis
    by (simp add: table_ok_def)
qed

lemma setStates_calls: "fst (setStates ks c) = []"
proof (induction ks arbitrary: c)
  case Nil
  show ?case by simp
next
  case (Cons k ks)
  have "fst (setStates (k # ks) c) = fst (setState k c) @ fst (setStates ks (snd (setState k c)))"
    by (simp add: split_beta)
  with Cons show ?case
    by (simp add: setState_calls)
qed

lemma setStates_current:
  "table_ok c \<Longrightarrow> registered_units k = Some p
     \<Longrightarrow> currentStateInstance (snd (setStates (ks @ [k]) c)) = p"
proof (induction ks arbitrary: c)
  case Nil
  then show ?case
    by (simp add: split_beta setState_current)
next
  case (Cons a ks)
  have "snd (setStates ((a # ks) @ [k]) c) = snd (setStates (ks @ [k]) (snd (setState a c)))"
    by (simp add: split_beta)
  with Cons show ?case
    by (simp add: setState_table_ok)
qed

lemma table_ok_new: "table_ok (snd (StateController_new i))"
  by (simp add: StateController_new_def setState_table_ok table_ok_initial)

text \<open>
  C1 as stated fails: the transition from \<open>DOCKED\<close> to \<open>MOWING\<close> does not call
  \<open>onExit\<close> of the docked unit and then \<open>onEnter\<close> of the mowing unit.
\<close>

theorem setState_calls_no_hook:
  "\<not> (fst (setState MOWING (snd (StateController_new DOCKED)))
        = [OnExit \<lparr>unit_class = Docked, unit_kind = DOCKED\<rparr>,
           OnEnter \<lparr>unit_class = Mowing, unit_kind = MOWING\<rparr>])"
  by (simp add: setState_calls)

text \<open>
  C1, amended. \<open>setState\<close> calls no hook of any unit. After any sequence of
  transitions from a freshly constructed controller, no hook has been called, and when
  the constructor stored a unit for the last target, the active-unit reference is the
  pointer to that unit.
\<close>

theorem setState_only_swaps_reference:
  assumes "registered_units k = Some p"
  shows "fst (setState k c) = []
   \<and> fst (setStates (ks @ [k]) (snd (StateController_new i))) = []
   \<and> getStateInstance (snd (setStates (ks @ [k]) (snd (StateController_new i)))) = p"
  using assms
  by (simp add: setState_calls setStates_calls getStateInstance_def setStates_current table_ok_new)

theorem setState_only_swaps_reference_witness:
  "registered_units MOWING = Some (new_unit Mowing MOWING)
   \<and> fst (setState MOWING (snd (StateController_new DOCKED))) = []
   \<and> fst (setStates ([LAUNCHING] @ [MOWING]) (snd (StateController_new DOCKED))) = []
   \<and> getStateInstance (snd (setStates ([LAUNCHING] @ [MOWING]) (snd (StateController_new DOCKED))))
       = Some \<lparr>unit_class = Mowing, unit_kind = MOWING\<rparr>"
proof -
  have r: "registered_units MOWING = Some (Some \<lparr>unit_class = Mowing, unit_kind = MOWING\<rparr>)"
    by (simp add: registered_units_def new_unit_def)
  from setState_only_swaps_reference [OF r, of "snd (StateController_new DOCKED)" "[LAUNCHING]" DOCKED] r
  show ?thesis
    by (simp add: new_unit_def)
qed

text \<open>
  C2, the code at the failing input. A controller constructed with \<open>DOCKED\<close> holds no
  entry for \<open>MANUAL\<close> or \<open>TEST\<close>, and after \<open>setState(MANUAL)\<close>, which the manual
  endpoints of the API call, the active-unit reference is the null pointer.
\<close>

theorem manual_and_test_have_no_unit:
  "stateLookup (snd (StateController_new DOCKED)) MANUAL = None
   \<and> stateLookup (snd (StateController_new DOCKED)) TEST = None
   \<and> getStateInstance (snd (StateController_new DOCKED)) = new_unit Docked DOCKED
   \<and> getStateInstance (snd (setState MANUAL (snd (StateController_new DOCKED)))) = None"
  by (simp add: StateController_new_def setState_def subscript_def registered_units_def
      getStateInstance_def)

section \<open>Properties of the state changes requested through the API\<close>

text \<open>
  C3 as stated fails: \<open>setUserChangableState\<close> is not the only operation reachable from
  outside that changes the current state. A \<open>PUT /api/v1/manual/forward\<close> on a
  controller docked at construction changes the active-unit reference.
\<close>

theorem manual_forward_changes_state:
  "currentStateInstance
     (api_put_manual_forward \<lparr>isAuthenticated = True\<rparr> (snd (StateController_new DOCKED)))
   \<noteq> currentStateInstance (snd (StateController_new DOCKED))"
  by (simp add: api_put_manual_forward_def StateController_new_def setState_def subscript_def
      registered_units_def new_unit_def)

text \<open>
  C3, amended. For a name that is unknown, or whose kind the active unit rejects,
  \<open>setUserChangableState\<close> returns false and leaves the controller as it was, and the
  handler of \<open>PUT /api/v1/state\<close> answers 422 with the controller unchanged. It is not
  the only way in: on an authenticated request, the handler of
  \<open>PUT /api/v1/manual/forward\<close> sets the state to \<open>MANUAL\<close> directly, whatever the
  active unit is.
\<close>

theorem rejected_name_keeps_state:
  assumes "parseName name = None
     \<or> (\<exists>k u. parseName name = Some k \<and> currentStateInstance c = Some u \<and> \<not> acceptsUserCommand u k)"
    and "isAuthenticated request" and "obj ''state'' = Some name"
  shows "setUserChangableState parseName acceptsUserCommand name c = (False, c)
     \<and> api_put_state parseName acceptsUserCommand request (Some obj) c
         = (SendText 422 (''unknown state: '' @ name), c)
     \<and> api_put_manual_forward request c' = snd (setState MANUAL c')"
proof -
  from assms(1) have rej: "setUserChangableState parseName acceptsUserCommand name c = (False, c)"
    by (auto simp: setUserChangableState_def)
  with assms(2,3) show ?thesis
    by (simp add: api_put_state_def api_put_manual_forward_def)
qed

theorem rejected_name_keeps_state_witness:
  "setUserChangableState (\<lambda>n. if n = ''MOWING'' then Some MOWING else None)
       (\<lambda>u k. unit_kind u \<noteq> FLIPPED) ''MOWING'' (snd (StateController_new FLIPPED))
     = (False, snd (StateController_new FLIPPED))
   \<and> api_put_state (\<lambda>n. if n = ''MOWING'' then Some MOWING else None)
       (\<lambda>u k. unit_kind u \<noteq> FLIPPED) \<lparr>isAuthenticated = True\<rparr> (Some [''state'' \<mapsto> ''MOWING''])
       (snd (StateController_new FLIPPED))
     = (SendText 422 (''unknown state: '' @ ''MOWING''), snd (StateController_new FLIPPED))"
proof -
  have cur: "currentStateInstance (snd (StateController_new FLIPPED))
      = Some \<lparr>unit_class = Flipped, unit_kind = FLIPPED\<rparr>"
    by (simp add: StateController_new_def setState_def subscript_def registered_units_def
        new_unit_def)
  have "(if ''MOWING'' = ''MOWING'' then Some MOWING else None) = None
     \<or> (\<exists>k u. (if ''MOWING'' = ''MOWING'' then Some MOWING else None) = Some k
          \<and> currentStateInstance (snd (StateController_new FLIPPED)) = Some u
          \<and> \<not> unit_kind u \<noteq> FLIPPED)"
    using cur by simp
  from rejected_name_keeps_state [of "\<lambda>n. if n = ''MOWING'' then Some MOWING else None"
      "''MOWING''" "snd (StateController_new FLIPPED)" "\<lambda>u k. unit_kind u \<noteq> FLIPPED"
      "\<lparr>isAuthenticated = True\<rparr>" "[''state'' \<mapsto> ''MOWING'']", OF this]
  show ?thesis
    by simp
qed

section \<open>Properties of the orientation estimator\<close>

text \<open>
  C4. \<open>isFlipped\<close> is true exactly when the sensor is available and the magnitude of the
  current pitch or of the current roll exceeds \<open>TILT_ANGLE_MAX\<close>; in particular it is
  false whenever the sensor is not available.
\<close>

theorem isFlipped_iff:
  "isFlipped TILT_ANGLE_MAX s
     = (available s
        \<and> (TILT_ANGLE_MAX < \<bar>pitch (currentOrientation s)\<bar>
           \<or> TILT_ANGLE_MAX < \<bar>roll (currentOrientation s)\<bar>))"
  by (simp add: isFlipped_def)

text \<open>
  C8. On an estimator that is not yet available and has no ticker attached, a \<open>start\<close>
  whose sensor initialisation fails returns normally with one error line logged and
  nothing else changed: the estimator is still not available, no ticker is attached,
  \<open>isFlipped\<close> is false, the orientation is the one it was constructed with, and a call
  of \<open>getReadings\<close> from anywhere changes nothing.
\<close>

theorem start_failure_degrades:
  assumes "\<not> available s" and "\<not> sensorReadingTicker s"
  shows "start D N False inputs s
           = s\<lparr>log_lines := log_lines s
                  @ [Log_error ''Failed to initialize gyro/accelerometer/compass, check connections!'']\<rparr>
     \<and> \<not> isAvailable (start D N False inputs s)
     \<and> \<not> sensorReadingTicker (start D N False inputs s)
     \<and> \<not> isFlipped T (start D N False inputs s)
     \<and> getOrientation (start D N False inputs s) = getOrientation s
     \<and> getReadings D N inp (start D N False inputs s) = start D N False inputs s"
  using assms
  by (simp add: start_def isAvailable_def isFlipped_def getOrientation_def getReadings_def)

theorem start_failure_degrades_witness:
  "\<not> available (IO_Accelerometer_new 3) \<and> \<not> sensorReadingTicker (IO_Accelerometer_new 3)
   \<and> \<not> isAvailable (start 6 3 False (\<lambda>i. \<lparr>accel = None, mag = None\<rparr>) (IO_Accelerometer_new 3))
   \<and> \<not> sensorReadingTicker (start 6 3 False (\<lambda>i. \<lparr>accel = None, mag = None\<rparr>) (IO_Accelerometer_new 3))
   \<and> \<not> isFlipped 35 (start 6 3 False (\<lambda>i. \<lparr>accel = None, mag = None\<rparr>) (IO_Accelerometer_new 3))
   \<and> getOrientation (start 6 3 False (\<lambda>i. \<lparr>accel = None, mag = None\<rparr>) (IO_Accelerometer_new 3))
       = \<lparr>roll = 0, pitch = 0, heading = 0\<rparr>"
proof -
  have a: "\<not> available (IO_Accelerometer_new 3)"
    and b: "\<not> sensorReadingTicker (IO_Accelerometer_new 3)"
    by (simp_all add: IO_Accelerometer_new_def)
  have o: "getOrientation (IO_Accelerometer_new 3) = \<lparr>roll = 0, pitch = 0, heading = 0\<rparr>"
    by (simp add: getOrientation_def IO_Accelerometer_new_def)
  note th = start_failure_degrades [OF a b, of 6 3 "\<lambda>i. \<lparr>accel = None, mag = None\<rparr>" 35
      "\<lparr>accel = None, mag = None\<rparr>"]
  from th have "getOrientation (start 6 3 False (\<lambda>i. \<lparr>accel = None, mag = None\<rparr>) (IO_Accelerometer_new 3))
      = getOrientation (IO_Accelerometer_new 3)"
    by (elim conjE)
  from this o have "getOrientation (start 6 3 False (\<lambda>i. \<lparr>accel = None, mag = None\<rparr>) (IO_Accelerometer_new 3))
      = \<lparr>roll = 0, pitch = 0, heading = 0\<rparr>"
    by (rule trans)
  with a b th show ?thesis
    by blast
qed

subsection \<open>The median window under a constant reading\<close>

text \<open>
  The write index advances by one modulo the window length, so any \<open>N\<close> writes in a row
  reach every index of the window.
\<close>

lemma mod_cover:
  fixes N p i0 :: nat
  assumes "0 < N" "p < N"
  shows "\<exists>j<N. (i0 + j) mod N = p"
proof -
  define q r where "q = i0 div N" and "r = i0 mod N"
  have i0: "i0 = N * q + r" and r: "r < N"
    using assms(1) by (simp_all add: q_def r_def)
  define j where "j = (p + (N - r)) mod N"
  have "j < N"
    using assms(1) by (simp add: j_def)
  moreover have "(i0 + j) mod N = p"
  proof -
    have "(i0 + j) mod N = (i0 + (p + (N - r))) mod N"
      by (simp add: j_def mod_add_right_eq)
    also have "i0 + (p + (N - r)) = p + N * Suc q"
      using r by (simp add: i0)
    also have "(p + N * Suc q) mod N = p"
      using assms(2) by (simp only: mod_mult_self2 mod_less)
    finally show ?thesis .
  qed
  ultimately show ?thesis by blast
qed

text \<open>The median of a window that holds one value only is that value.\<close>

lemma calculateMedian_replicate: "0 < n \<Longrightarrow> calculateMedian (replicate n c) = c"
proof -
  assume n: "0 < n"
  have "sorted (map sint (replicate n c))"
    by (simp add: sorted_replicate)
  then have "sort_key sint (replicate n c) = replicate n c"
    by (rule sort_key_id_if_sorted)
  with n show ?thesis
    by (simp add: calculateMedian_def)
qed

text \<open>
  The 32-bit sum of the two squares is the exact sum, except when both values are
  \<open>-32768\<close> and the sum is \<open>2^31\<close>.
\<close>

lemma sint16_square_le:
  fixes y :: int16
  shows "(sint y)\<^sup>2 \<le> 1073741824"
    and "y \<noteq> - 32768 \<Longrightarrow> (sint y)\<^sup>2 \<le> 1073676289"
proof -
  have lo: "- 32768 \<le> sint y" and hi: "sint y < 32768"
    using sint_ge [of y] sint_lt [of y] by simp_all
  then have "\<bar>sint y\<bar> \<le> \<bar>32768\<bar>"
    by simp
  then have "(sint y)\<^sup>2 \<le> 32768\<^sup>2"
    by (simp only: abs_le_square_iff)
  then show "(sint y)\<^sup>2 \<le> 1073741824"
    by simp
  assume "y \<noteq> - 32768"
  then have "sint y \<noteq> sint (- 32768 :: int16)"
    using signed_word_eqI [of y "- 32768"] by blast
  then have "sint y \<noteq> - 32768"
    by simp
  with lo hi have "\<bar>sint y\<bar> \<le> \<bar>32767\<bar>"
    by simp
  then have "(sint y)\<^sup>2 \<le> 32767\<^sup>2"
    by (simp only: abs_le_square_iff)
  then show "(sint y)\<^sup>2 \<le> 1073676289"
    by simp
qed

lemma squares_sum_exact:
  assumes "\<not> (y = - 32768 \<and> z = - 32768)"
  shows "squares_sum y z = (sint y)\<^sup>2 + (sint z)\<^sup>2"
proof -
  have up: "sint (scast w :: 32 word) = sint w" for w :: int16
    by (simp add: sint_up_scast is_up)
  have sq: "sint ((scast w :: 32 word) * scast w) = (sint w)\<^sup>2" for w :: int16
  proof -
    have "- (2 ^ 31) \<le> (sint w)\<^sup>2"
      by (rule order_trans [of _ 0]) simp_all
    moreover have "(sint w)\<^sup>2 < 2 ^ 31"
      using sint16_square_le(1) [of w] by simp
    ultimately have "signed_take_bit 31 ((sint w)\<^sup>2) = (sint w)\<^sup>2"
      by (rule signed_take_bit_int_eq_self)
    then show ?thesis
      by (simp add: sint_word_mult up power2_eq_square)
  qed
  have "(sint y)\<^sup>2 + (sint z)\<^sup>2 \<le> 2147418113"
    using assms sint16_square_le [of y] sint16_square_le [of z] by (cases "y = - 32768") auto
  then have lt: "(sint y)\<^sup>2 + (sint z)\<^sup>2 < 2 ^ 31"
    by simp
  have "- (2 ^ 31) \<le> (sint y)\<^sup>2 + (sint z)\<^sup>2"
    by (rule order_trans [of _ 0]) simp_all
  from this lt have "signed_take_bit 31 ((sint y)\<^sup>2 + (sint z)\<^sup>2) = (sint y)\<^sup>2 + (sint z)\<^sup>2"
    by (rule signed_take_bit_int_eq_self)
  moreover have "sint (a + b) = signed_take_bit 31 (sint a + sint b)" for a b :: "32 word"
    by (simp add: sint_word_ariths)
  ultimately show ?thesis
    by (simp only: squares_sum_def sq)
qed

text \<open>
  One tick that delivers both samples, and the windows after \<open>k\<close> such ticks with the
  same samples: the \<open>k\<close> entries written last hold the new values.
\<close>

lemma getReadings_step:
  assumes "available s"
  shows "getReadings D N \<lparr>accel = Some (x, y, z), mag = Some (u, v)\<rparr> s
    = s\<lparr>imu := (imu s)\<lparr>ax := x, ay := y, az := z, mx := u, my := v\<rparr>,
         ax_sample := (ax_sample s)[medianIndex s := x],
         ay_sample := (ay_sample s)[medianIndex s := y],
         az_sample := (az_sample s)[medianIndex s := z],
         mx_sample := (mx_sample s)[medianIndex s := u],
         my_sample := (my_sample s)[medianIndex s := v],
         medianIndex := (medianIndex s + 1) mod N,
         currentOrientation := orientationFromMedians D
           (calculateMedian ((ax_sample s)[medianIndex s := x]))
           (calculateMedian ((ay_sample s)[medianIndex s := y]))
           (calculateMedian ((az_sample s)[medianIndex s := z]))
           (calculateMedian ((mx_sample s)[medianIndex s := u]))
           (calculateMedian ((my_sample s)[medianIndex s := v]))\<rparr>"
  using assms by (simp add: getReadings_def readSensors_def Let_def)

lemma sampling_ticks_Suc:
  "sampling_ticks D N (replicate (Suc k) inp) s
     = getReadings D N inp (sampling_ticks D N (replicate k inp) s)"
proof -
  have "replicate (Suc k) inp = replicate k inp @ [inp]"
    by (simp add: replicate_append_same)
  then show ?thesis
    by (simp only: sampling_ticks_def fold_append fold_simps comp_apply id_apply)
qed

lemma window_after_write:
  assumes len: "length w = N" and m: "m = (i0 + k) mod N" and N: "0 < N"
    and old: "\<forall>j<k. w ! ((i0 + j) mod N) = c"
  shows "\<forall>j<Suc k. w[m := c] ! ((i0 + j) mod N) = c"
proof (intro allI impI)
  fix j assume j: "j < Suc k"
  have mN: "m < length w"
    using len m N by simp
  show "w[m := c] ! ((i0 + j) mod N) = c"
  proof (cases "(i0 + j) mod N = m")
    case True
    with mN show ?thesis by simp
  next
    case False
    with m have "j \<noteq> k" by auto
    with j have "j < k" by simp
    with old have "w ! ((i0 + j) mod N) = c" by simp
    with False show ?thesis by simp
  qed
qed

lemma constant_ticks_windows:
  assumes inp: "inp = \<lparr>accel = Some (x, y, z), mag = Some (u, v)\<rparr>"
    and N: "0 < N" and av: "available s" and idx: "medianIndex s < N"
    and len: "length (ax_sample s) = N" "length (ay_sample s) = N" "length (az_sample s) = N"
      "length (mx_sample s) = N" "length (my_sample s) = N"
  defines "i0 \<equiv> medianIndex s"
  shows "available (sampling_ticks D N (replicate k inp) s)
    \<and> medianIndex (sampling_ticks D N (replicate k inp) s) = (i0 + k) mod N
    \<and> length (ax_sample (sampling_ticks D N (replicate k inp) s)) = N
    \<and> length (ay_sample (sampling_ticks D N (replicate k inp) s)) = N
    \<and> length (az_sample (sampling_ticks D N (replicate k inp) s)) = N
    \<and> length (mx_sample (sampling_ticks D N (replicate k inp) s)) = N
    \<and> length (my_sample (sampling_ticks D N (replicate k inp) s)) = N
    \<and> (\<forall>j<k. ax_sample (sampling_ticks D N (replicate k inp) s) ! ((i0 + j) mod N) = x)
    \<and> (\<forall>j<k. ay_sample (sampling_ticks D N (replicate k inp) s) ! ((i0 + j) mod N) = y)
    \<and> (\<forall>j<k. az_sample (sampling_ticks D N (replicate k inp) s) ! ((i0 + j) mod N) = z)
    \<and> (\<forall>j<k. mx_sample (sampling_ticks D N (replicate k inp) s) ! ((i0 + j) mod N) = u)
    \<and> (\<forall>j<k. my_sample (sampling_ticks D N (replicate k inp) s) ! ((i0 + j) mod N) = v)"
proof (induction k)
  case 0
  from av idx len show ?case
    by (simp add: sampling_ticks_def i0_def)
next
  case (Suc k)
  define t where "t = sampling_ticks D N (replicate k inp) s"
  have step: "sampling_ticks D N (replicate (Suc k) inp) s
      = getReadings D N \<lparr>accel = Some (x, y, z), mag = Some (u, v)\<rparr> t"
    by (simp only: sampling_ticks_Suc t_def inp)
  from Suc have av_t: "available t" and m: "medianIndex t = (i0 + k) mod N"
    and l: "length (ax_sample t) = N" "length (ay_sample t) = N" "length (az_sample t) = N"
      "length (mx_sample t) = N" "length (my_sample t) = N"
    and old: "\<forall>j<k. ax_sample t ! ((i0 + j) mod N) = x"
      "\<forall>j<k. ay_sample t ! ((i0 + j) mod N) = y"
      "\<forall>j<k. az_sample t ! ((i0 + j) mod N) = z"
      "\<forall>j<k. mx_sample t ! ((i0 + j) mod N) = u"
      "\<forall>j<k. my_sample t ! ((i0 + j) mod N) = v"
    by (simp_all add: t_def)
  have idx': "((i0 + k) mod N + 1) mod N = (i0 + Suc k) mod N"
    by (simp add: mod_Suc_eq)
  show ?case
    unfolding step getReadings_step [OF av_t]
    using av_t l idx'
      window_after_write [OF l(1) m N old(1)] window_after_write [OF l(2) m N old(2)]
      window_after_write [OF l(3) m N old(3)] window_after_write [OF l(4) m N old(4)]
      window_after_write [OF l(5) m N old(5)]
    by (simp add: m)
qed

text \<open>Once \<open>k\<close> has reached the window length, the window holds the new value only.\<close>

lemma window_full:
  assumes N: "0 < N" and len: "length w = N" and k: "N \<le> k"
    and all: "\<forall>j<k. w ! ((i0 + j) mod N) = c"
  shows "w = replicate N c"
proof (rule replicate_eqI [OF len])
  fix e assume "e \<in> set w"
  then obtain p where p: "p < N" and e: "e = w ! p"
    using len by (auto simp: in_set_conv_nth)
  from mod_cover [OF N p, of i0] obtain j where "j < N" and "(i0 + j) mod N = p"
    by blast
  with k all have "w ! p = c"
    by (metis less_le_trans)
  with e show "e = c" by simp
qed

lemma orientation_after_tick:
  assumes "available s"
  shows "currentOrientation (getReadings D N inp s)
     = orientationFromMedians D
         (calculateMedian (ax_sample (getReadings D N inp s)))
         (calculateMedian (ay_sample (getReadings D N inp s)))
         (calculateMedian (az_sample (getReadings D N inp s)))
         (calculateMedian (mx_sample (getReadings D N inp s)))
         (calculateMedian (my_sample (getReadings D N inp s)))"
  using assms by (simp add: getReadings_def Let_def)

lemma constant_ticks_orientation:
  assumes N: "0 < N" and n: "N \<le> n" and av: "available s" and idx: "medianIndex s < N"
    and len: "length (ax_sample s) = N" "length (ay_sample s) = N" "length (az_sample s) = N"
      "length (mx_sample s) = N" "length (my_sample s) = N"
  shows "currentOrientation
           (sampling_ticks D N (replicate n \<lparr>accel = Some (x, y, z), mag = Some (u, v)\<rparr>) s)
         = orientationFromMedians D x y z u v"
proof -
  define inp where "inp = \<lparr>accel = Some (x, y, z), mag = Some (u, v)\<rparr>"
  define s' where "s' = sampling_ticks D N (replicate n inp) s"
  note inv = constant_ticks_windows [OF inp_def N av idx len, of D n, folded s'_def]
  from inv N n have w: "ax_sample s' = replicate N x" "ay_sample s' = replicate N y"
    "az_sample s' = replicate N z" "mx_sample s' = replicate N u" "my_sample s' = replicate N v"
    by (auto intro: window_full)
  from N n obtain k where k: "n = Suc k"
    by (cases n) auto
  have av_k: "available (sampling_ticks D N (replicate k inp) s)"
    using constant_ticks_windows [OF inp_def N av idx len, of D k] by simp
  have "s' = getReadings D N inp (sampling_ticks D N (replicate k inp) s)"
    by (simp only: s'_def k sampling_ticks_Suc)
  with orientation_after_tick [OF av_k, of D N inp]
  have "currentOrientation s' = orientationFromMedians D
         (calculateMedian (ax_sample s')) (calculateMedian (ay_sample s'))
         (calculateMedian (az_sample s')) (calculateMedian (mx_sample s'))
         (calculateMedian (my_sample s'))"
    by simp
  with w N show ?thesis
    by (simp add: calculateMedian_replicate s'_def inp_def)
qed

subsection \<open>The range of the heading\<close>

text \<open>The angle is in \<open>(-\<pi>, \<pi>]\<close>, so the yaw in degrees is in \<open>(-180, 180]\<close>.\<close>

lemma atan2_bounds: "- pi < atan2 y x \<and> atan2 y x \<le> pi"
proof -
  have lb: "- (pi / 2) < arctan (y / x)" and ub: "arctan (y / x) < pi / 2"
    by (rule arctan_lbound, rule arctan_ubound)
  have pos: "0 < pi" by (rule pi_gt_zero)
  consider "0 < x" | "x < 0" "0 \<le> y" | "x < 0" "y < 0" | "x = 0"
    by linarith
  then show ?thesis
  proof cases
    case 1
    then have "atan2 y x = arctan (y / x)" by (simp add: atan2_def)
    with lb ub pos show ?thesis by linarith
  next
    case 2
    then have "y / x \<le> 0" by (simp add: divide_nonneg_neg)
    then have "arctan (y / x) \<le> 0" by (simp only: arctan_le_zero_iff)
    moreover from 2 have "atan2 y x = arctan (y / x) + pi" by (simp add: atan2_def)
    ultimately show ?thesis using lb pos by linarith
  next
    case 3
    then have "0 < y / x" by (simp add: divide_neg_neg)
    then have "0 < arctan (y / x)" by (simp only: zero_less_arctan_iff)
    moreover from 3 have "atan2 y x = arctan (y / x) - pi" by (simp add: atan2_def)
    ultimately show ?thesis using ub pos by linarith
  next
    case 4
    then have "atan2 y x = pi / 2 \<or> atan2 y x = - (pi / 2) \<or> atan2 y x = 0"
      by (simp add: atan2_def)
    with pos show ?thesis by linarith
  qed
qed

lemma roundf_range: "0 \<le> x \<Longrightarrow> x \<le> 360 \<Longrightarrow> 0 \<le> roundf x \<and> roundf x \<le> 360"
  by (simp add: roundf_def)

lemma degrees_bounds:
  assumes "- pi < a" "a \<le> pi"
  shows "- 180 < a * (180 / pi)" "a * (180 / pi) \<le> 180"
proof -
  have pos: "0 < pi" by (rule pi_gt_zero)
  have e: "a * (180 / pi) = 180 * (a / pi)" by simp
  from assms pos have "- 1 < a / pi" "a / pi \<le> 1"
    by (simp_all add: pos_less_divide_eq pos_divide_le_eq)
  then show "- 180 < a * (180 / pi)" "a * (180 / pi) \<le> 180"
    unfolding e by linarith+
qed

lemma yaw_bounds:
  "- pi < (if - sint v = 0 then (if - sint u < 0 then pi else 0)
           else atan2 (of_int (- sint u)) (of_int (- sint v)))
   \<and> (if - sint v = 0 then (if - sint u < 0 then pi else 0)
           else atan2 (of_int (- sint u)) (of_int (- sint v))) \<le> pi"
  using atan2_bounds [of "of_int (- sint u)" "of_int (- sint v)"] pi_gt_zero by auto

lemma heading_range:
  assumes "- 180 \<le> D" "D \<le> 180"
  shows "0 \<le> heading (orientationFromMedians D a b c u v)
     \<and> heading (orientationFromMedians D a b c u v) \<le> 360"
proof -
  define yaw0 where "yaw0 = (if - sint v = 0 then (if - sint u < 0 then pi else 0)
           else atan2 (of_int (- sint u)) (of_int (- sint v)))"
  define yaw2 where "yaw2 = yaw0 * (180 / pi) - D"
  define yaw3 where "yaw3 = (if yaw2 < 0 then yaw2 + 360 else yaw2)"
  have h: "heading (orientationFromMedians D a b c u v) = roundf yaw3"
    by (simp add: orientationFromMedians_def Let_def yaw3_def yaw2_def yaw0_def)
  have "- pi < yaw0" "yaw0 \<le> pi"
    using yaw_bounds [of v u] by (simp_all add: yaw0_def)
  then have "- 180 < yaw0 * (180 / pi)" "yaw0 * (180 / pi) \<le> 180"
    by (rule degrees_bounds)+
  with assms have "0 \<le> yaw3" "yaw3 \<le> 360"
    by (simp_all add: yaw3_def yaw2_def)
  then show ?thesis
    unfolding h by (rule roundf_range)
qed

text \<open>
  A small angle below zero: \<open>arctan x \<le> x\<close> for \<open>x \<ge> 0\<close>, so the yaw of the sample
  \<open>(1, -1000)\<close> is within half a degree below 0 and is normalised to just below 360.
\<close>

lemma arctan_le_arg:
  fixes x :: real
  assumes "0 \<le> x"
  shows "arctan x \<le> x"
proof -
  have "(\<lambda>t. t - arctan t) 0 \<le> (\<lambda>t. t - arctan t) x"
  proof (rule DERIV_nonneg_imp_nondecreasing [OF assms])
    fix t :: real
    have "DERIV (\<lambda>t. t - arctan t) t :> 1 - inverse (1 + t\<^sup>2)"
      by (auto intro!: derivative_eq_intros)
    moreover have "inverse (1 + t\<^sup>2) \<le> 1"
      by (rule inverse_le_1_iff [THEN iffD2]) simp
    ultimately show "\<exists>y. DERIV (\<lambda>t. t - arctan t) t :> y \<and> 0 \<le> y"
      by (intro exI [of _ "1 - inverse (1 + t\<^sup>2)"]) simp
  qed
  then show ?thesis by simp
qed

lemma heading_rounds_up:
  "heading (orientationFromMedians 0 a b c 1 (- 1000)) = 360"
proof -
  have pos: "0 < pi" by (rule pi_gt_zero)
  define t where "t = arctan (1 / 1000) * (180 / pi)"
  have "0 < arctan (1 / 1000 :: real)"
    by (simp only: zero_less_arctan_iff)
  with pos have t0: "0 < t"
    by (simp add: t_def)
  have le: "arctan (1 / 1000 :: real) \<le> 1 / 1000"
    by (rule arctan_le_arg) simp
  have "t \<le> (1 / 1000) * (180 / pi)"
    unfolding t_def using le by (rule mult_right_mono) (use pos in simp)
  also have "\<dots> < 1 / 2"
    using pi_ge_two by (simp add: field_simps)
  finally have t1: "t < 1 / 2" .
  have "atan2 (- 1) 1000 = - arctan (1 / 1000)"
    by (simp add: atan2_def arctan_minus)
  then have "heading (orientationFromMedians 0 a b c 1 (- 1000)) = roundf (360 - t)"
    using t0 by (simp add: orientationFromMedians_def Let_def t_def)
  also have "\<dots> = 360"
    using t0 t1 by (simp add: roundf_def floor_eq_iff)
  finally show ?thesis .
qed

text \<open>A successful start on a sensor that delivers the same samples at every priming read.\<close>

lemma start_constant_input:
  "start D N True (\<lambda>i. inp) s
     = (sampling_ticks D N (replicate N inp)
          (s\<lparr>log_lines := log_lines s
                @ [Log_notice (''Gyro/accelerometer/compass init success.'' @ [CHR 0x0A])],
             available := True\<rparr>))\<lparr>sensorReadingTicker := True\<rparr>"
proof -
  have "fold (\<lambda>i. getReadings D N inp) [0..<N] t = fold (getReadings D N) (replicate N inp) t" for t
    using fold_map [of "getReadings D N" "\<lambda>i. inp" "[0..<N]"]
    by (simp add: map_replicate_const comp_def)
  then show ?thesis
    by (simp add: start_def sampling_ticks_def Let_def)
qed

text \<open>
  C6 as stated fails, with no declination correction and a window of nine samples: an
  estimator started on a sensor that delivers the magnetometer sample \<open>(1, -1000)\<close>
  publishes the heading 360, which is not below 360.
\<close>

theorem heading_reaches_360:
  "\<not> heading (getOrientation
        (start 0 9 True (\<lambda>i. \<lparr>accel = Some (0, 0, 16384), mag = Some (1, - 1000)\<rparr>)
           (IO_Accelerometer_new 9))) < 360"
proof -
  define s1 where "s1 = (IO_Accelerometer_new 9)
     \<lparr>log_lines := log_lines (IO_Accelerometer_new 9)
        @ [Log_notice (''Gyro/accelerometer/compass init success.'' @ [CHR 0x0A])],
      available := True\<rparr>"
  have h: "(0::nat) < 9" "(9::nat) \<le> 9" "available s1" "medianIndex s1 < 9"
    "length (ax_sample s1) = 9" "length (ay_sample s1) = 9" "length (az_sample s1) = 9"
    "length (mx_sample s1) = 9" "length (my_sample s1) = 9"
    by (simp_all add: s1_def IO_Accelerometer_new_def)
  have "heading (getOrientation
        (start 0 9 True (\<lambda>i. \<lparr>accel = Some (0, 0, 16384), mag = Some (1, - 1000)\<rparr>)
           (IO_Accelerometer_new 9))) = heading (orientationFromMedians 0 0 0 16384 1 (- 1000))"
    using constant_ticks_orientation [OF h, of 0 0 0 16384 1 "- 1000"]
    by (simp add: start_constant_input getOrientation_def s1_def)
  then show ?thesis
    by (simp add: heading_rounds_up)
qed

text \<open>
  C6, amended. With a declination correction between -180 and 180 degrees, the heading
  that an available estimator publishes at a sampling tick lies between 0 and 360, both
  ends included: the normalisation yields a value in [0, 360], and the rounding that
  follows can reach 360. When the median of the magnetometer's y is 0, the yaw before
  the correction is 180 degrees if the median of x is positive and 0 otherwise.
\<close>

theorem heading_in_closed_range:
  assumes "available s" and "- 180 \<le> D" and "D \<le> 180"
  shows "0 \<le> heading (getOrientation (getReadings D N inp s))
     \<and> heading (getOrientation (getReadings D N inp s)) \<le> 360
     \<and> heading (orientationFromMedians D a b c u 0)
         = roundf (if (if 0 < sint u then 180 else 0) - D < 0
                   then (if 0 < sint u then 180 else 0) - D + 360
                   else (if 0 < sint u then 180 else 0) - D)"
proof -
  have "heading (getOrientation (getReadings D N inp s))
     = heading (orientationFromMedians D
         (calculateMedian (ax_sample (getReadings D N inp s)))
         (calculateMedian (ay_sample (getReadings D N inp s)))
         (calculateMedian (az_sample (getReadings D N inp s)))
         (calculateMedian (mx_sample (getReadings D N inp s)))
         (calculateMedian (my_sample (getReadings D N inp s))))"
    using orientation_after_tick [OF assms(1), of D N inp] by (simp add: getOrientation_def)
  moreover have "heading (orientationFromMedians D a b c u 0)
         = roundf (if (if 0 < sint u then 180 else 0) - D < 0
                   then (if 0 < sint u then 180 else 0) - D + 360
                   else (if 0 < sint u then 180 else 0) - D)"
    by (simp add: orientationFromMedians_def Let_def)
  ultimately show ?thesis
    using heading_range [OF assms(2,3)] by simp
qed

theorem heading_in_closed_range_witness:
  "available ((IO_Accelerometer_new 3)\<lparr>available := True\<rparr>) \<and> (- 180 :: real) \<le> 6 \<and> (6 :: real) \<le> 180
   \<and> 0 \<le> heading (getOrientation (getReadings 6 3 \<lparr>accel = None, mag = Some (- 250, 0)\<rparr>
                 ((IO_Accelerometer_new 3)\<lparr>available := True\<rparr>)))
   \<and> heading (getOrientation (getReadings 6 3 \<lparr>accel = None, mag = Some (- 250, 0)\<rparr>
                 ((IO_Accelerometer_new 3)\<lparr>available := True\<rparr>))) \<le> 360"
proof -
  have h: "available ((IO_Accelerometer_new 3)\<lparr>available := True\<rparr>)" "(- 180 :: real) \<le> 6"
    "(6 :: real) \<le> 180"
    by simp_all
  from heading_in_closed_range [OF h, of 3 "\<lparr>accel = None, mag = Some (- 250, 0)\<rparr>"] h
  show ?thesis
    by simp
qed

section \<open>Properties of the status collection\<close>

lemma collect_signal_change:
  assumes "currentStatus a = status_at_boot\<lparr>wifiSignal := old, uptime := up\<rparr>"
    and "signal \<noteq> old" and "lastMQTT_push a < of_nat seconds - 10"
  shows "collectAndPushNewStatus (answers_at seconds signal) a
     = ([SendDataWebSocket ''status'' (status_at_boot\<lparr>wifiSignal := signal, uptime := of_nat seconds\<rparr>),
         Publish_mqtt (status_at_boot\<lparr>wifiSignal := signal, uptime := of_nat seconds\<rparr>) ''/status''],
        a\<lparr>currentStatus := status_at_boot\<lparr>wifiSignal := signal, uptime := of_nat seconds\<rparr>,
          lastMQTT_push := of_nat seconds\<rparr>)"
  using assms
  by (simp add: collectAndPushNewStatus_def answers_at_def status_at_boot_def Let_def)

text \<open>
  C10, the code at the failing input. With nothing published yet, a change of the signal
  strength one second after boot is published to MQTT, and a further change one second
  later is published to MQTT again: the bound \<open>uptime - 10\<close> is formed in unsigned
  arithmetic and wraps while the uptime is below 10 seconds.
\<close>

theorem mqtt_published_twice_in_two_seconds:
  "collectAndPushNewStatus (answers_at 1 (- 61))
     \<lparr>currentStatus = status_at_boot, lastMQTT_push = 0\<rparr>
   = ([SendDataWebSocket ''status'' (status_at_boot\<lparr>wifiSignal := - 61, uptime := 1\<rparr>),
       Publish_mqtt (status_at_boot\<lparr>wifiSignal := - 61, uptime := 1\<rparr>) ''/status''],
      \<lparr>currentStatus = status_at_boot\<lparr>wifiSignal := - 61, uptime := 1\<rparr>, lastMQTT_push = 1\<rparr>)
   \<and> collectAndPushNewStatus (answers_at 2 (- 62))
     \<lparr>currentStatus = status_at_boot\<lparr>wifiSignal := - 61, uptime := 1\<rparr>, lastMQTT_push = 1\<rparr>
   = ([SendDataWebSocket ''status'' (status_at_boot\<lparr>wifiSignal := - 62, uptime := 2\<rparr>),
       Publish_mqtt (status_at_boot\<lparr>wifiSignal := - 62, uptime := 2\<rparr>) ''/status''],
      \<lparr>currentStatus = status_at_boot\<lparr>wifiSignal := - 62, uptime := 2\<rparr>, lastMQTT_push = 2\<rparr>)"
proof -
  have p1: "currentStatus \<lparr>currentStatus = status_at_boot, lastMQTT_push = 0\<rparr>
      = status_at_boot\<lparr>wifiSignal := - 60, uptime := 0\<rparr>"
    by (simp add: status_at_boot_def)
  have w1: "lastMQTT_push \<lparr>currentStatus = status_at_boot, lastMQTT_push = 0\<rparr> < of_nat 1 - 10"
    by (simp add: word_less_nat_alt)
  have first: "collectAndPushNewStatus (answers_at 1 (- 61))
     \<lparr>currentStatus = status_at_boot, lastMQTT_push = 0\<rparr>
   = ([SendDataWebSocket ''status'' (status_at_boot\<lparr>wifiSignal := - 61, uptime := 1\<rparr>),
       Publish_mqtt (status_at_boot\<lparr>wifiSignal := - 61, uptime := 1\<rparr>) ''/status''],
      \<lparr>currentStatus = status_at_boot\<lparr>wifiSignal := - 61, uptime := 1\<rparr>, lastMQTT_push = 1\<rparr>)"
    using collect_signal_change [OF p1 _ w1, of "- 61"]
    by simp
  have p2: "currentStatus
       \<lparr>currentStatus = status_at_boot\<lparr>wifiSignal := - 61, uptime := 1\<rparr>, lastMQTT_push = 1\<rparr>
      = status_at_boot\<lparr>wifiSignal := - 61, uptime := 1\<rparr>"
    by simp
  have w2: "lastMQTT_push
       \<lparr>currentStatus = status_at_boot\<lparr>wifiSignal := - 61, uptime := 1\<rparr>, lastMQTT_push = 1\<rparr>
      < of_nat 2 - 10"
    by (simp add: word_less_nat_alt)
  have second: "collectAndPushNewStatus (answers_at 2 (- 62))
     \<lparr>currentStatus = status_at_boot\<lparr>wifiSignal := - 61, uptime := 1\<rparr>, lastMQTT_push = 1\<rparr>
   = ([SendDataWebSocket ''status'' (status_at_boot\<lparr>wifiSignal := - 62, uptime := 2\<rparr>),
       Publish_mqtt (status_at_boot\<lparr>wifiSignal := - 62, uptime := 2\<rparr>) ''/status''],
      \<lparr>currentStatus = status_at_boot\<lparr>wifiSignal := - 62, uptime := 2\<rparr>, lastMQTT_push = 2\<rparr>)"
    using collect_signal_change [OF p2 _ w2, of "- 62"]
    by simp
  from first second show ?thesis
    by (rule conjI)
qed

end
